theory Spec2Isabelle
  imports Main "HOL-Library.Word"
begin

unbundle bit_operations_syntax

section \<open>Recovery of globally pinned chunks (package prod)\<close>

text \<open>
  The package resolves the pinners of a chunk from recovery feeds (\<open>getPinners\<close>),
  sends them a recovery request (\<open>NewRecoveryHook\<close>) and, on the receiving side,
  asks the local store to re-upload the chunk (\<open>NewRepairHandler\<close>).
  Everything it calls outside the package (the feed handler, the sender, the store and
  the library functions for topics, keys and JSON) is a parameter of the model; the
  hexadecimal decoding of the publisher string is written out.
\<close>

subsection \<open>Values\<close>

type_synonym bytes = "8 word list"

text \<open>\<open>feed.Topic\<close>, \<open>common.Address\<close>, \<open>trojan.Topic\<close>, \<open>chunk.Address\<close>: byte strings.\<close>

type_synonym Topic = bytes
type_synonym Address = bytes
type_synonym TrojanTopic = bytes

text \<open>\<open>trojan.Target\<close> is a byte string, \<open>trojan.Targets\<close> a slice of them.\<close>

type_synonym Targets = "bytes list"

text \<open>\<open>ecdsa.PublicKey\<close> on the fixed curve: the coordinates X and Y.\<close>

datatype PublicKey = PublicKey int int

text \<open>
  Go \<open>error\<close> values. The six package variables of lines 41 to 57 are values of their
  own; \<open>OtherError m\<close> is any error value made elsewhere, with message \<open>m\<close>.
  A package variable is never identical to an error made elsewhere, also when the
  messages agree.
\<close>

datatype error =
    ErrPublisher
  | ErrPubKey
  | ErrFeedLookup
  | ErrFeedContent
  | ErrContextHash
  | ErrTargets
  | OtherError string

fun Error :: "error \<Rightarrow> string" where
  "Error ErrPublisher = ''failed to decode publisher''"
| "Error ErrPubKey = ''failed to decompress public key''"
| "Error ErrFeedLookup = ''failed to look up recovery feed''"
| "Error ErrFeedContent = ''failed to get content for recovery feed''"
| "Error ErrContextHash = ''failed to extract hash from context''"
| "Error ErrTargets = ''failed to unmarshal targets in recovery feed content''"
| "Error (OtherError m) = m"

definition RecoveryTopicText :: string where
  "RecoveryTopicText = ''RECOVERY''"

subsection \<open>The request context\<close>

text \<open>
  A \<open>context.Context\<close> is a chain of key/value pairs, the most recent first, with an
  optional deadline (here: the milliseconds left). A value is dynamically typed;
  \<open>OtherVal\<close> is any value that is not a string.
\<close>

datatype ctx_value = StringVal string | OtherVal nat

record Context =
  entries :: "(string \<times> ctx_value) list"
  deadline :: "nat option"

definition Value :: "Context \<Rightarrow> string \<Rightarrow> ctx_value option" where
  "Value ctx key = map_of (entries ctx) key"

text \<open>The type assertion \<open>v.(string)\<close> in its two-result form: the zero string when it fails.\<close>

fun assert_string :: "ctx_value option \<Rightarrow> string \<times> bool" where
  "assert_string (Some (StringVal s)) = (s, True)"
| "assert_string (Some (OtherVal _)) = ([], False)"
| "assert_string None = ([], False)"

definition Background :: Context where
  "Background = \<lparr>entries = [], deadline = None\<rparr>"

text \<open>\<open>context.WithTimeout\<close>: the earlier of the parent's deadline and the new one.\<close>

definition WithTimeout :: "Context \<Rightarrow> nat \<Rightarrow> Context" where
  "WithTimeout ctx ms =
     ctx\<lparr>deadline := Some (case deadline ctx of None \<Rightarrow> ms | Some d \<Rightarrow> min d ms)\<rparr>"

subsection \<open>Feeds and queries\<close>

record Feed =
  Topic :: Topic
  User :: Address

text \<open>
  Modelled from the spec: \<open>feed.NewQueryLatest\<close>, \<open>feed.Query\<close> and \<open>lookup.NoClue\<close> are
  declared outside the files at hand. A query names the feed and the hint it starts
  from; \<open>NoClue\<close> is the "no prior hint" strategy, and the query asks for the latest
  update.
\<close>

datatype Hint = NoClue | Clue nat nat

datatype Query = NewQueryLatest Feed Hint

subsection \<open>Library functions taken as parameters\<close>

text \<open>
  \<open>feed_NewTopic\<close> is \<open>feed.NewTopic\<close> with no related content, \<open>crypto_DecompressPubkey\<close>
  and \<open>crypto_PubkeyToAddress\<close> are go-ethereum's, \<open>json_Unmarshal\<close> decodes into a
  \<open>trojan.Targets\<close>, \<open>trojan_NewTopic\<close> builds the topic of a trojan message.
\<close>

record Lib =
  feed_NewTopic :: "string \<Rightarrow> error + Topic"
  crypto_DecompressPubkey :: "bytes \<Rightarrow> error + PublicKey"
  crypto_PubkeyToAddress :: "PublicKey \<Rightarrow> Address"
  json_Unmarshal :: "bytes \<Rightarrow> error + Targets"
  trojan_NewTopic :: "string \<Rightarrow> TrojanTopic"

definition RecoveryTopic :: "Lib \<Rightarrow> TrojanTopic" where
  "RecoveryTopic L = trojan_NewTopic L RecoveryTopicText"

subsection \<open>Hexadecimal decoding (encoding/hex)\<close>

datatype hex_error = InvalidByteError char | ErrLength

definition fromHexChar :: "char \<Rightarrow> 8 word option" where
  "fromHexChar c =
     (let n = (of_char c :: nat) in
      if 48 \<le> n \<and> n \<le> 57 then Some (of_nat (n - 48))
      else if 97 \<le> n \<and> n \<le> 102 then Some (of_nat (n - 97 + 10))
      else if 65 \<le> n \<and> n \<le> 70 then Some (of_nat (n - 65 + 10))
      else None)"

text \<open>
  \<open>hex.DecodeString\<close>: two digits make a byte; the first character that is no digit is
  reported, before an odd length is. The bytes decoded before an error are dropped
  here, since \<open>publisherToAddress\<close> does not read them.
\<close>

fun hex_DecodeString :: "string \<Rightarrow> hex_error + bytes" where
  "hex_DecodeString [] = Inr []"
| "hex_DecodeString [p] =
     (case fromHexChar p of None \<Rightarrow> Inl (InvalidByteError p) | Some _ \<Rightarrow> Inl ErrLength)"
| "hex_DecodeString (p # q # src) =
     (case fromHexChar p of
        None \<Rightarrow> Inl (InvalidByteError p)
      | Some a \<Rightarrow>
          (case fromHexChar q of
             None \<Rightarrow> Inl (InvalidByteError q)
           | Some b \<Rightarrow>
               (case hex_DecodeString src of
                  Inl e \<Rightarrow> Inl e
                | Inr dst \<Rightarrow> Inr ((push_bit 4 a OR b) # dst))))"

text \<open>What a valid hexadecimal string is: an even number of hexadecimal digits.\<close>

definition valid_hex :: "string \<Rightarrow> bool" where
  "valid_hex s = (even (length s) \<and> list_all (\<lambda>c. fromHexChar c \<noteq> None) s)"

subsection \<open>publisherToAddress and getFeedTopicAndUser\<close>

definition publisherToAddress :: "Lib \<Rightarrow> string \<Rightarrow> error + Address" where
  "publisherToAddress L publisher =
     (case hex_DecodeString publisher of
        Inl _ \<Rightarrow> Inl ErrPublisher
      | Inr publisherBytes \<Rightarrow>
          (case crypto_DecompressPubkey L publisherBytes of
             Inl _ \<Rightarrow> Inl ErrPubKey
           | Inr pubKey \<Rightarrow> Inr (crypto_PubkeyToAddress L pubKey)))"

definition getFeedTopicAndUser :: "Lib \<Rightarrow> string \<Rightarrow> string \<Rightarrow> error + (Topic \<times> Address)" where
  "getFeedTopicAndUser L topicText publisher =
     (case feed_NewTopic L topicText of
        Inl err \<Rightarrow> Inl err
      | Inr topic \<Rightarrow>
          (case publisherToAddress L publisher of
             Inl err \<Rightarrow> Inl err
           | Inr user \<Rightarrow> Inr (topic, user)))"

subsection \<open>The collaborators and the log of calls to them\<close>

text \<open>
  The feed handler, the sender and the store have state of their own, which the package
  never sees: \<open>'w\<close>. A call takes that state and returns the new one. What a call
  returns may depend on anything in \<open>'w\<close>, so a lookup that runs into its deadline is
  one of the errors \<open>Lookup\<close> may return.

  \<open>Lookup\<close> returns an update and an error, \<open>GetContent\<close> a pointer, the content
  and an error: the package drops the update and the pointer (lines 156 and 162), and
  the model leaves them out.
\<close>

record 'w GenericHandler =
  Lookup :: "Context \<Rightarrow> Query \<Rightarrow> 'w \<Rightarrow> error option \<times> 'w"
  GetContent :: "Feed \<Rightarrow> 'w \<Rightarrow> (error + bytes) \<times> 'w"

text \<open>\<open>*pss.Monitor\<close>: a handle on the delivery of a message, or nil.\<close>

datatype Monitor = Monitor nat

type_synonym 'w sender =
  "Context \<Rightarrow> Targets \<Rightarrow> TrojanTopic \<Rightarrow> bytes \<Rightarrow> 'w \<Rightarrow> (Monitor option \<times> error option) \<times> 'w"

text \<open>
  Modelled from the spec: \<open>chunk.ModeSet\<close>, \<open>chunk.ValidatorStore\<close> and \<open>trojan.Message\<close>
  are declared outside the files at hand. The store takes a state-transition request
  (a mode and the addresses it is for) and answers with an error or nil; the mode used
  here is the re-upload one. A message carries a topic and a payload.
\<close>

datatype ModeSet = ModeSetReUpload | ModeSetOther nat

record 'w ValidatorStore =
  Set :: "Context \<Rightarrow> ModeSet \<Rightarrow> Address list \<Rightarrow> 'w \<Rightarrow> error option \<times> 'w"

record Message =
  MessageTopic :: TrojanTopic
  Payload :: bytes

text \<open>
  The log is ghost state: every call that leaves the package is appended to it, with
  its arguments, so that "is called once" and "is not called" can be stated.
\<close>

datatype event =
    EvLookup Context Query
  | EvGetContent Feed
  | EvSend Context Targets TrojanTopic bytes
  | EvSet Context ModeSet "Address list"

record 'w state =
  world :: 'w
  calls :: "event list"

definition handler_Lookup ::
  "'w GenericHandler \<Rightarrow> Context \<Rightarrow> Query \<Rightarrow> 'w state \<Rightarrow> error option \<times> 'w state" where
  "handler_Lookup handler ctx query s =
     (case Lookup handler ctx query (world s) of
        (err, w) \<Rightarrow> (err, \<lparr>world = w, calls = calls s @ [EvLookup ctx query]\<rparr>))"

definition handler_GetContent ::
  "'w GenericHandler \<Rightarrow> Feed \<Rightarrow> 'w state \<Rightarrow> (error + bytes) \<times> 'w state" where
  "handler_GetContent handler fd s =
     (case GetContent handler fd (world s) of
        (r, w) \<Rightarrow> (r, \<lparr>world = w, calls = calls s @ [EvGetContent fd]\<rparr>))"

definition call_send ::
  "'w sender \<Rightarrow> Context \<Rightarrow> Targets \<Rightarrow> TrojanTopic \<Rightarrow> bytes \<Rightarrow> 'w state
     \<Rightarrow> (Monitor option \<times> error option) \<times> 'w state" where
  "call_send send ctx targets topic payload s =
     (case send ctx targets topic payload (world s) of
        (r, w) \<Rightarrow> (r, \<lparr>world = w, calls = calls s @ [EvSend ctx targets topic payload]\<rparr>))"

definition store_Set ::
  "'w ValidatorStore \<Rightarrow> Context \<Rightarrow> ModeSet \<Rightarrow> Address list \<Rightarrow> 'w state \<Rightarrow> error option \<times> 'w state" where
  "store_Set st ctx mode addrs s =
     (case Set st ctx mode addrs (world s) of
        (err, w) \<Rightarrow> (err, \<lparr>world = w, calls = calls s @ [EvSet ctx mode addrs]\<rparr>))"

subsection \<open>getFeedContent, queryRecoveryFeed, getPinners\<close>

definition getFeedContent ::
  "Context \<Rightarrow> 'w GenericHandler \<Rightarrow> Topic \<Rightarrow> Address \<Rightarrow> 'w state \<Rightarrow> (error + bytes) \<times> 'w state" where
  "getFeedContent ctx handler topic user s =
     (let fd = \<lparr>Topic = topic, User = user\<rparr>;
          query = NewQueryLatest fd NoClue;
          ctx' = WithTimeout ctx 100
      in case handler_Lookup handler ctx' query s of
           (err, s1) \<Rightarrow>
             if err \<noteq> None \<and> Error (the err) \<noteq> ''no feed updates found''
             then (Inl ErrFeedLookup, s1)
             else (case handler_GetContent handler fd s1 of
                     (Inl _, s2) \<Rightarrow> (Inl ErrFeedContent, s2)
                   | (Inr content, s2) \<Rightarrow> (Inr content, s2)))"

definition queryRecoveryFeed ::
  "Lib \<Rightarrow> Context \<Rightarrow> string \<Rightarrow> string \<Rightarrow> 'w GenericHandler \<Rightarrow> 'w state
     \<Rightarrow> (error + bytes) \<times> 'w state" where
  "queryRecoveryFeed L ctx topicText publisher handler s =
     (case getFeedTopicAndUser L topicText publisher of
        Inl err \<Rightarrow> (Inl err, s)
      | Inr (topic, user) \<Rightarrow>
          (case getFeedContent ctx handler topic user s of
             (Inl err, s1) \<Rightarrow> (Inl err, s1)
           | (Inr content, s1) \<Rightarrow> (Inr content, s1)))"

text \<open>Lines 112 to 118: the content is decoded, and any decoding error becomes \<open>ErrTargets\<close>.\<close>

definition extract_targets :: "Lib \<Rightarrow> bytes \<Rightarrow> error + Targets" where
  "extract_targets L feedContent =
     (case json_Unmarshal L feedContent of
        Inl _ \<Rightarrow> Inl ErrTargets
      | Inr targets \<Rightarrow> Inr targets)"

definition getPinners ::
  "Lib \<Rightarrow> Context \<Rightarrow> 'w GenericHandler \<Rightarrow> string \<Rightarrow> 'w state \<Rightarrow> (error + Targets) \<times> 'w state" where
  "getPinners L ctx handler fallbackPublisher s =
     (let publisher = fst (assert_string (Value ctx ''publisher''))
      in case queryRecoveryFeed L ctx RecoveryTopicText publisher handler s of
           (Inr feedContent, s1) \<Rightarrow> (extract_targets L feedContent, s1)
         | (Inl err, s1) \<Rightarrow>
             if fallbackPublisher = [] then (Inl err, s1)
             else (case assert_string (Value ctx ''hash'') of
                     (hash, ok) \<Rightarrow>
                       if \<not> ok then (Inl ErrContextHash, s1)
                       else (case queryRecoveryFeed L ctx (RecoveryTopicText @ ''_'' @ hash)
                                     fallbackPublisher handler s1 of
                               (Inl err, s2) \<Rightarrow> (Inl err, s2)
                             | (Inr feedContent, s2) \<Rightarrow> (extract_targets L feedContent, s2))))"

subsection \<open>NewRecoveryHook and NewRepairHandler\<close>

text \<open>A \<open>RecoveryHook\<close> returns an error or nil; the monitor the sender returns is dropped.\<close>

definition NewRecoveryHook ::
  "Lib \<Rightarrow> 'w sender \<Rightarrow> 'w GenericHandler \<Rightarrow> string
     \<Rightarrow> Context \<Rightarrow> Address \<Rightarrow> 'w state \<Rightarrow> error option \<times> 'w state" where
  "NewRecoveryHook L send handler fallbackPublisher ctx chunkAddress s =
     (case getPinners L ctx handler fallbackPublisher s of
        (Inl err, s1) \<Rightarrow> (Some err, s1)
      | (Inr targets, s1) \<Rightarrow>
          (let payload = chunkAddress
           in case call_send send ctx targets (RecoveryTopic L) payload s1 of
                ((_, err), s2) \<Rightarrow> (err, s2)))"

text \<open>A \<open>pss.Handler\<close> returns nothing: only the state after it is left.\<close>

definition NewRepairHandler :: "'w ValidatorStore \<Rightarrow> Message \<Rightarrow> 'w state \<Rightarrow> 'w state" where
  "NewRepairHandler st m s =
     (let chAddr = Payload m
      in snd (store_Set st Background ModeSetReUpload [chAddr] s))"

text \<open>Which entries of the log are calls of the sender.\<close>

fun is_EvSend :: "event \<Rightarrow> bool" where
  "is_EvSend (EvSend _ _ _ _) = True"
| "is_EvSend _ = False"

text \<open>The lookup that \<open>getFeedContent\<close> makes for a feed, as an entry of the log.\<close>

definition lookup_call :: "Context \<Rightarrow> Feed \<Rightarrow> event" where
  "lookup_call ctx fd = EvLookup (WithTimeout ctx 100) (NewQueryLatest fd NoClue)"

subsection \<open>Stand-ins for running the model\<close>

text \<open>
  To run the functions on concrete inputs the parameters need values. \<open>stub_Lib\<close> keeps
  of each library function what the package can observe: a topic text of more than 32
  bytes is refused, a compressed key is 33 bytes that start with 2 or 3, content decodes
  unless it is empty. Its results are not those of the real functions.
  A scripted handler answers each call from two tables and counts the calls; a scripted
  sender and store answer with a fixed error or nil.
\<close>

definition stub_Lib :: Lib where
  "stub_Lib =
     \<lparr>feed_NewTopic = (\<lambda>name. if 32 < length name
                               then Inl (OtherError ''Topic is too long. Max length is 32'')
                               else Inr (map of_char name)),
      crypto_DecompressPubkey = (\<lambda>b. if length b = 33 \<and> (hd b = 2 \<or> hd b = 3)
                                      then Inr (PublicKey (uint (b ! 1)) (uint (hd b)))
                                      else Inl (OtherError ''invalid public key'')),
      crypto_PubkeyToAddress = (\<lambda>k. case k of PublicKey x y \<Rightarrow> [of_int x, of_int y]),
      json_Unmarshal = (\<lambda>c. if c = [] then Inl (OtherError ''unexpected end of JSON input'')
                             else Inr (map (\<lambda>b. [b]) c)),
      trojan_NewTopic = map of_char\<rparr>"

definition scripted_handler ::
  "(Feed \<Rightarrow> error option) \<Rightarrow> (Feed \<Rightarrow> error + bytes) \<Rightarrow> nat GenericHandler" where
  "scripted_handler lk gc =
     \<lparr>Lookup = (\<lambda>ctx query w. case query of NewQueryLatest fd hint \<Rightarrow> (lk fd, Suc w)),
      GetContent = (\<lambda>fd w. (gc fd, Suc w))\<rparr>"

definition scripted_sender :: "error option \<Rightarrow> nat sender" where
  "scripted_sender err = (\<lambda>ctx targets topic payload w. ((Some (Monitor w), err), Suc w))"

definition scripted_store :: "error option \<Rightarrow> nat ValidatorStore" where
  "scripted_store err = \<lparr>Set = (\<lambda>ctx mode addrs w. (err, Suc w))\<rparr>"

definition start :: "nat state" where
  "start = \<lparr>world = 0, calls = []\<rparr>"

text \<open>A publisher string that \<open>stub_Lib\<close> accepts, and contexts with and without a hash.\<close>

definition a_publisher :: string where
  "a_publisher = ''02abababababababababababababababababababababababababababababababab''"

definition ctx_with_hash :: Context where
  "ctx_with_hash =
     \<lparr>entries = [(''hash'', StringVal ''abc123''), (''publisher'', StringVal a_publisher)],
      deadline = None\<rparr>"

definition ctx_without_hash :: Context where
  "ctx_without_hash = \<lparr>entries = [(''publisher'', StringVal a_publisher)], deadline = None\<rparr>"

definition ctx_hash_not_string :: Context where
  "ctx_hash_not_string =
     \<lparr>entries = [(''hash'', OtherVal 7), (''publisher'', StringVal a_publisher)],
      deadline = None\<rparr>"

definition ctx_publisher_not_string :: Context where
  "ctx_publisher_not_string = \<lparr>entries = [(''publisher'', OtherVal 7)], deadline = Some 50\<rparr>"

text \<open>
  Handlers, each serving the content it is given: one that finds every feed, and one
  whose lookup fails for a feed with a topic of eight bytes, as that of RECOVERY is.
\<close>

definition primary_down :: "Feed \<Rightarrow> error option" where
  "primary_down fd = (if length (Topic fd) = 8 then Some (OtherError ''context deadline exceeded'') else None)"

definition handler_up :: "bytes \<Rightarrow> nat GenericHandler" where
  "handler_up content = scripted_handler (\<lambda>fd. None) (\<lambda>fd. Inr content)"

definition handler_primary_down :: "bytes \<Rightarrow> nat GenericHandler" where
  "handler_primary_down content = scripted_handler primary_down (\<lambda>fd. Inr content)"

text \<open>The feeds that \<open>stub_Lib\<close> derives for \<open>a_publisher\<close>.\<close>

definition primary_feed :: Feed where
  "primary_feed = \<lparr>Topic = map of_char ''RECOVERY'', User = [171, 2]\<rparr>"

definition fallback_feed :: Feed where
  "fallback_feed = \<lparr>Topic = map of_char ''RECOVERY_abc123'', User = [171, 2]\<rparr>"

section \<open>Properties\<close>

subsection \<open>Hexadecimal decoding\<close>

lemma hex_DecodeString_isl: "isl (hex_DecodeString s) \<longleftrightarrow> \<not> valid_hex s"
proof (induction s rule: hex_DecodeString.induct)
  case 1
  show ?case by (simp add: valid_hex_def)
next
  case (2 p)
  show ?case by (simp add: valid_hex_def split: option.splits)
next
  case (3 p q src)
  show ?case
  proof (cases "fromHexChar p")
    case None
    then show ?thesis by (simp add: valid_hex_def)
  next
    case (Some a)
    note a = this
    show ?thesis
    proof (cases "fromHexChar q")
      case None
      then show ?thesis using a by (simp add: valid_hex_def)
    next
      case (Some b)
      from "3.IH" [OF a Some] have "isl (hex_DecodeString src) \<longleftrightarrow> \<not> valid_hex src" .
      then show ?thesis using a Some
        by (cases "hex_DecodeString src") (auto simp: valid_hex_def)
    qed
  qed
qed

lemma hex_DecodeString_valid: "valid_hex s \<longleftrightarrow> (\<exists>bs. hex_DecodeString s = Inr bs)"
  using hex_DecodeString_isl [of s] by (cases "hex_DecodeString s") auto

lemma hex_DecodeString_length: "hex_DecodeString s = Inr bs \<Longrightarrow> length s = 2 * length bs"
  by (induction s arbitrary: bs rule: hex_DecodeString.induct)
     (auto split: option.splits sum.splits)

subsection \<open>What a feed query appends to the log\<close>

lemma getFeedContent_unfold:
  assumes "Lookup handler (WithTimeout ctx 100) (NewQueryLatest fd NoClue) (world s) = (lerr, w1)"
      and "GetContent handler fd w1 = (r, w2)"
      and "fd = \<lparr>Topic = topic, User = user\<rparr>"
  shows "getFeedContent ctx handler topic user s =
     (if lerr \<noteq> None \<and> Error (the lerr) \<noteq> ''no feed updates found''
      then (Inl ErrFeedLookup,
            \<lparr>world = w1, calls = calls s @ [EvLookup (WithTimeout ctx 100) (NewQueryLatest fd NoClue)]\<rparr>)
      else (case r of Inl _ \<Rightarrow> Inl ErrFeedContent | Inr content \<Rightarrow> Inr content,
            \<lparr>world = w2, calls = calls s @ [EvLookup (WithTimeout ctx 100) (NewQueryLatest fd NoClue),
                                              EvGetContent fd]\<rparr>))"
  using assms
  by (simp add: getFeedContent_def handler_Lookup_def handler_GetContent_def Let_def
           split: sum.splits)

lemma getFeedContent_calls:
  assumes "getFeedContent ctx handler topic user s = (r, s')"
      and "fd = \<lparr>Topic = topic, User = user\<rparr>"
      and "lk = EvLookup (WithTimeout ctx 100) (NewQueryLatest fd NoClue)"
  shows "(calls s' = calls s @ [lk] \<and> r = Inl ErrFeedLookup)
       \<or> calls s' = calls s @ [lk, EvGetContent fd]"
proof -
  obtain lerr w1 where l: "Lookup handler (WithTimeout ctx 100) (NewQueryLatest fd NoClue) (world s) = (lerr, w1)"
    by (cases "Lookup handler (WithTimeout ctx 100) (NewQueryLatest fd NoClue) (world s)")
  obtain g w2 where g: "GetContent handler fd w1 = (g, w2)"
    by (cases "GetContent handler fd w1")
  show ?thesis
    using assms(1) getFeedContent_unfold [OF l g assms(2)] assms(3)
    by (auto split: if_splits)
qed

lemma queryRecoveryFeed_unresolved:
  "getFeedTopicAndUser L topicText publisher = Inl e \<Longrightarrow>
     queryRecoveryFeed L ctx topicText publisher handler s = (Inl e, s)"
  by (simp add: queryRecoveryFeed_def)

lemma queryRecoveryFeed_resolved:
  "getFeedTopicAndUser L topicText publisher = Inr (topic, user) \<Longrightarrow>
     queryRecoveryFeed L ctx topicText publisher handler s = getFeedContent ctx handler topic user s"
  by (simp add: queryRecoveryFeed_def split: prod.splits sum.splits)

lemma queryRecoveryFeed_calls:
  assumes "queryRecoveryFeed L ctx topicText publisher handler s = (r, s')"
      and "getFeedTopicAndUser L topicText publisher = Inr (topic, user)"
      and "fd = \<lparr>Topic = topic, User = user\<rparr>"
      and "lk = EvLookup (WithTimeout ctx 100) (NewQueryLatest fd NoClue)"
  shows "(calls s' = calls s @ [lk] \<and> r = Inl ErrFeedLookup)
       \<or> calls s' = calls s @ [lk, EvGetContent fd]"
proof -
  from assms(1) have "getFeedContent ctx handler topic user s = (r, s')"
    by (simp add: queryRecoveryFeed_resolved [OF assms(2)])
  from getFeedContent_calls [OF this assms(3) assms(4)] show ?thesis .
qed

lemma queryRecoveryFeed_success:
  assumes "queryRecoveryFeed L ctx topicText publisher handler s = (Inr content, s')"
  shows "\<exists>topic user. getFeedTopicAndUser L topicText publisher = Inr (topic, user)
           \<and> calls s' = calls s @ [EvLookup (WithTimeout ctx 100)
                                      (NewQueryLatest \<lparr>Topic = topic, User = user\<rparr> NoClue),
                                    EvGetContent \<lparr>Topic = topic, User = user\<rparr>]"
proof (cases "getFeedTopicAndUser L topicText publisher")
  case (Inl e)
  then show ?thesis using assms by (simp add: queryRecoveryFeed_unresolved)
next
  case (Inr tu)
  obtain topic user where tu: "tu = (topic, user)" by (cases tu)
  from queryRecoveryFeed_calls [OF assms Inr [unfolded tu] refl refl]
  show ?thesis using Inr tu by auto
qed

lemma getFeedTopicAndUser_Inr:
  "getFeedTopicAndUser L topicText publisher = Inr (topic, user) \<longleftrightarrow>
     feed_NewTopic L topicText = Inr topic \<and> publisherToAddress L publisher = Inr user"
  by (auto simp: getFeedTopicAndUser_def split: sum.splits)

lemma queryRecoveryFeed_no_send:
  assumes "queryRecoveryFeed L ctx topicText publisher handler s = (r, s')"
  shows "filter is_EvSend (calls s') = filter is_EvSend (calls s)"
proof (cases "getFeedTopicAndUser L topicText publisher")
  case (Inl e)
  then show ?thesis using assms by (simp add: queryRecoveryFeed_unresolved)
next
  case (Inr tu)
  obtain topic user where tu: "tu = (topic, user)" by (cases tu)
  from queryRecoveryFeed_calls [OF assms Inr [unfolded tu] refl refl]
  show ?thesis by auto
qed

lemma getPinners_primary_ok:
  "queryRecoveryFeed L ctx RecoveryTopicText (fst (assert_string (Value ctx ''publisher''))) handler s
     = (Inr content, s1) \<Longrightarrow>
   getPinners L ctx handler fallbackPublisher s = (extract_targets L content, s1)"
  by (simp add: getPinners_def)

lemma getPinners_primary_failed:
  "queryRecoveryFeed L ctx RecoveryTopicText (fst (assert_string (Value ctx ''publisher''))) handler s
     = (Inl err, s1) \<Longrightarrow>
   getPinners L ctx handler fallbackPublisher s =
     (if fallbackPublisher = [] then (Inl err, s1)
      else if \<not> snd (assert_string (Value ctx ''hash'')) then (Inl ErrContextHash, s1)
      else (case queryRecoveryFeed L ctx (''RECOVERY_'' @ fst (assert_string (Value ctx ''hash'')))
                   fallbackPublisher handler s1 of
              (Inl err2, s2) \<Rightarrow> (Inl err2, s2)
            | (Inr content, s2) \<Rightarrow> (extract_targets L content, s2)))"
  by (simp add: getPinners_def RecoveryTopicText_def split: prod.splits)

lemma getPinners_no_send:
  assumes "getPinners L ctx handler fallbackPublisher s = (r, s')"
  shows "filter is_EvSend (calls s') = filter is_EvSend (calls s)"
proof -
  obtain r1 s1 where q1: "queryRecoveryFeed L ctx RecoveryTopicText
      (fst (assert_string (Value ctx ''publisher''))) handler s = (r1, s1)"
    by (cases "queryRecoveryFeed L ctx RecoveryTopicText
      (fst (assert_string (Value ctx ''publisher''))) handler s")
  note n1 = queryRecoveryFeed_no_send [OF q1]
  show ?thesis
  proof (cases r1)
    case (Inr content)
    with q1 assms n1 show ?thesis by (simp add: getPinners_primary_ok)
  next
    case (Inl err)
    obtain r2 s2 where q2: "queryRecoveryFeed L ctx (''RECOVERY_'' @ fst (assert_string (Value ctx ''hash'')))
                   fallbackPublisher handler s1 = (r2, s2)"
      by (cases "queryRecoveryFeed L ctx (''RECOVERY_'' @ fst (assert_string (Value ctx ''hash'')))
                   fallbackPublisher handler s1")
    note n2 = queryRecoveryFeed_no_send [OF q2]
    from assms n1 n2 q2 show ?thesis
      using getPinners_primary_failed [OF q1 [unfolded Inl], of fallbackPublisher]
      by (auto split: if_splits sum.splits)
  qed
qed

subsection \<open>The stand-ins at work\<close>

lemma a_publisher_decoded:
  "hex_DecodeString a_publisher =
     Inr [2, 171, 171, 171, 171, 171, 171, 171, 171, 171, 171, 171, 171, 171, 171, 171,
       171, 171, 171, 171, 171, 171, 171, 171, 171, 171, 171, 171, 171, 171, 171, 171,
       171]"
  by (simp add: a_publisher_def fromHexChar_def)

lemma a_publisher_address: "publisherToAddress stub_Lib a_publisher = Inr [171, 2]"
  by (simp add: publisherToAddress_def a_publisher_decoded stub_Lib_def)

lemma ctx_publisher:
  "fst (assert_string (Value ctx_with_hash ''publisher'')) = a_publisher"
  "fst (assert_string (Value ctx_without_hash ''publisher'')) = a_publisher"
  "fst (assert_string (Value ctx_hash_not_string ''publisher'')) = a_publisher"
  by (simp_all add: Value_def ctx_with_hash_def ctx_without_hash_def ctx_hash_not_string_def)

lemma ctx_hash:
  "Value ctx_with_hash ''hash'' = Some (StringVal ''abc123'')"
  "Value ctx_without_hash ''hash'' = None"
  "Value ctx_hash_not_string ''hash'' = Some (OtherVal 7)"
  by (simp_all add: Value_def ctx_with_hash_def ctx_without_hash_def ctx_hash_not_string_def)

lemma stub_topics:
  "feed_NewTopic stub_Lib RecoveryTopicText = Inr (map of_char ''RECOVERY'')"
  "feed_NewTopic stub_Lib ''RECOVERY_abc123'' = Inr (map of_char ''RECOVERY_abc123'')"
  by (simp_all add: stub_Lib_def RecoveryTopicText_def)

lemma primary_resolved:
  "getFeedTopicAndUser stub_Lib RecoveryTopicText a_publisher
     = Inr (Topic primary_feed, User primary_feed)"
  by (simp add: getFeedTopicAndUser_def a_publisher_address primary_feed_def stub_topics)

lemma fallback_resolved:
  "getFeedTopicAndUser stub_Lib ''RECOVERY_abc123'' a_publisher
     = Inr (Topic fallback_feed, User fallback_feed)"
  by (simp add: getFeedTopicAndUser_def a_publisher_address fallback_feed_def stub_topics)

lemma query_up:
  "queryRecoveryFeed stub_Lib ctx RecoveryTopicText a_publisher (handler_up c) start
     = (Inr c, \<lparr>world = 2, calls = [lookup_call ctx primary_feed, EvGetContent primary_feed]\<rparr>)"
  by (simp add: queryRecoveryFeed_resolved [OF primary_resolved] getFeedContent_def
        handler_Lookup_def handler_GetContent_def handler_up_def scripted_handler_def
        start_def lookup_call_def Let_def numeral_2_eq_2)

lemma query_primary_down:
  "queryRecoveryFeed stub_Lib ctx RecoveryTopicText a_publisher (handler_primary_down c) start
     = (Inl ErrFeedLookup, \<lparr>world = 1, calls = [lookup_call ctx primary_feed]\<rparr>)"
  by (simp add: queryRecoveryFeed_resolved [OF primary_resolved] getFeedContent_def
        handler_Lookup_def handler_GetContent_def handler_primary_down_def scripted_handler_def
        start_def lookup_call_def primary_down_def primary_feed_def Let_def)

lemma query_fallback:
  "queryRecoveryFeed stub_Lib ctx ''RECOVERY_abc123'' a_publisher (handler_primary_down c)
       \<lparr>world = 1, calls = [lookup_call ctx primary_feed]\<rparr>
     = (Inr c, \<lparr>world = 3, calls = [lookup_call ctx primary_feed,
                                     lookup_call ctx fallback_feed,
                                     EvGetContent fallback_feed]\<rparr>)"
  by (simp add: queryRecoveryFeed_resolved [OF fallback_resolved] getFeedContent_def
        handler_Lookup_def handler_GetContent_def handler_primary_down_def scripted_handler_def
        lookup_call_def primary_down_def fallback_feed_def Let_def numeral_3_eq_3)

lemma query_bad_fallback:
  "queryRecoveryFeed stub_Lib ctx ''RECOVERY_abc123'' ''zz'' handler s = (Inl ErrPublisher, s)"
  by (rule queryRecoveryFeed_unresolved)
     (simp add: getFeedTopicAndUser_def publisherToAddress_def fromHexChar_def stub_Lib_def)

lemma pinners_up:
  "getPinners stub_Lib ctx_with_hash (handler_up [1, 2]) a_publisher start
     = (Inr [[1], [2]],
        \<lparr>world = 2,
         calls = [lookup_call ctx_with_hash primary_feed, EvGetContent primary_feed]\<rparr>)"
  using getPinners_primary_ok [of stub_Lib ctx_with_hash "handler_up [1, 2]" start,
          unfolded ctx_publisher, OF query_up, of a_publisher]
  by (simp add: extract_targets_def stub_Lib_def)

lemma pinners_down:
  "getPinners stub_Lib ctx_without_hash (handler_primary_down [7]) a_publisher start
     = (Inl ErrContextHash,
        \<lparr>world = 1, calls = [lookup_call ctx_without_hash primary_feed]\<rparr>)"
  using getPinners_primary_failed [of stub_Lib ctx_without_hash "handler_primary_down [7]" start,
          unfolded ctx_publisher, OF query_primary_down, of a_publisher]
  by (simp add: ctx_hash a_publisher_def)

subsection \<open>publisherToAddress\<close>

text \<open>
  C6. \<open>publisherToAddress\<close> is a function of the publisher string alone (it takes and
  returns no state, so two calls on the same string agree). A string that is not valid
  hexadecimal gives \<open>ErrPublisher\<close>. A valid one decodes to half as many bytes; if the
  bytes are not decompressed to a public key the result is \<open>ErrPubKey\<close>, and if they
  are, the result is the address of that key, with no error.
\<close>

theorem publisherToAddress_cases:
  "(\<not> valid_hex publisher \<longrightarrow> publisherToAddress L publisher = Inl ErrPublisher)
   \<and> (valid_hex publisher \<longrightarrow>
        (\<exists>publisherBytes. hex_DecodeString publisher = Inr publisherBytes
           \<and> length publisher = 2 * length publisherBytes
           \<and> (case crypto_DecompressPubkey L publisherBytes of
                Inl e \<Rightarrow> publisherToAddress L publisher = Inl ErrPubKey
              | Inr pubKey \<Rightarrow> publisherToAddress L publisher = Inr (crypto_PubkeyToAddress L pubKey))))"
proof (cases "hex_DecodeString publisher")
  case (Inl e)
  then have "\<not> valid_hex publisher" by (simp add: hex_DecodeString_valid)
  with Inl show ?thesis by (simp add: publisherToAddress_def)
next
  case (Inr bs)
  then have "valid_hex publisher" by (auto simp: hex_DecodeString_valid)
  with Inr hex_DecodeString_length [OF Inr] show ?thesis
    by (simp add: publisherToAddress_def split: sum.splits)
qed

theorem publisherToAddress_cases_witness:
  "\<not> valid_hex ''0g'' \<and> publisherToAddress stub_Lib ''0g'' = Inl ErrPublisher
   \<and> \<not> valid_hex ''02a'' \<and> publisherToAddress stub_Lib ''02a'' = Inl ErrPublisher
   \<and> valid_hex ''02ab'' \<and> publisherToAddress stub_Lib ''02ab'' = Inl ErrPubKey
   \<and> valid_hex a_publisher \<and> publisherToAddress stub_Lib a_publisher = Inr [171, 2]"
proof -
  have v1: "\<not> valid_hex ''0g''" and v2: "\<not> valid_hex ''02a''" and v3: "valid_hex ''02ab''"
    by (simp_all add: valid_hex_def fromHexChar_def)
  have v4: "valid_hex a_publisher"
    by (simp add: hex_DecodeString_valid a_publisher_decoded)
  have d3: "hex_DecodeString ''02ab'' = Inr [2, 171]"
    by (simp add: fromHexChar_def)
  from publisherToAddress_cases [of "''0g''" stub_Lib] v1
  have r1: "publisherToAddress stub_Lib ''0g'' = Inl ErrPublisher" by simp
  from publisherToAddress_cases [of "''02a''" stub_Lib] v2
  have r2: "publisherToAddress stub_Lib ''02a'' = Inl ErrPublisher" by simp
  from publisherToAddress_cases [of "''02ab''" stub_Lib] v3 d3
  have r3: "publisherToAddress stub_Lib ''02ab'' = Inl ErrPubKey"
    by (simp add: stub_Lib_def)
  from publisherToAddress_cases [of a_publisher stub_Lib] v4 a_publisher_decoded
  have r4: "publisherToAddress stub_Lib a_publisher = Inr [171, 2]"
    by (simp add: stub_Lib_def)
  from v1 v2 v3 v4 r1 r2 r3 r4 show ?thesis by simp
qed

subsection \<open>getFeedContent\<close>

text \<open>
  C7. In \<open>getFeedContent\<close>, with \<open>lerr\<close> what the lookup returns and \<open>r\<close> what the
  content read returns: if the lookup fails with an error whose message is not
  "no feed updates found", the result is \<open>ErrFeedLookup\<close> and the log ends with the
  lookup (\<open>GetContent\<close> is not called). If the lookup succeeds, or fails with that
  message, \<open>GetContent\<close> is called after it, on the same feed: when it fails the
  result is \<open>ErrFeedContent\<close>, otherwise the content is returned with no error.
\<close>

theorem getFeedContent_cases:
  assumes "Lookup handler (WithTimeout ctx 100) (NewQueryLatest fd NoClue) (world s) = (lerr, w1)"
      and "GetContent handler fd w1 = (r, w2)"
      and "fd = \<lparr>Topic = topic, User = user\<rparr>"
  shows "(\<forall>err. lerr = Some err \<and> Error err \<noteq> ''no feed updates found'' \<longrightarrow>
            getFeedContent ctx handler topic user s =
              (Inl ErrFeedLookup, \<lparr>world = w1, calls = calls s @ [lookup_call ctx fd]\<rparr>))
       \<and> (lerr = None \<or> (\<exists>err. lerr = Some err \<and> Error err = ''no feed updates found'') \<longrightarrow>
            (\<forall>err. r = Inl err \<longrightarrow>
               getFeedContent ctx handler topic user s =
                 (Inl ErrFeedContent,
                  \<lparr>world = w2, calls = calls s @ [lookup_call ctx fd, EvGetContent fd]\<rparr>))
          \<and> (\<forall>content. r = Inr content \<longrightarrow>
               getFeedContent ctx handler topic user s =
                 (Inr content,
                  \<lparr>world = w2, calls = calls s @ [lookup_call ctx fd, EvGetContent fd]\<rparr>)))"
  using getFeedContent_unfold [OF assms(1) assms(2) assms(3)]
  by (auto simp: lookup_call_def)

theorem getFeedContent_cases_witness:
  "(let fd = \<lparr>Topic = [8], User = [9]\<rparr>;
        late = Some (OtherError ''context deadline exceeded'');
        no_updates = Some (OtherError ''no feed updates found'');
        missing = Inl (OtherError ''feed does not exist'');
        run = (\<lambda>l g. getFeedContent Background (scripted_handler (\<lambda>fd. l) (\<lambda>fd. g))
                        [8] [9] start);
        after_lookup = \<lparr>world = 1, calls = [lookup_call Background fd]\<rparr>;
        after_both = \<lparr>world = 2, calls = [lookup_call Background fd, EvGetContent fd]\<rparr>
    in run late (Inr [1]) = (Inl ErrFeedLookup, after_lookup)
     \<and> run no_updates (Inr [1]) = (Inr [1], after_both)
     \<and> run no_updates missing = (Inl ErrFeedContent, after_both)
     \<and> run None missing = (Inl ErrFeedContent, after_both)
     \<and> run None (Inr [1]) = (Inr [1], after_both))"
proof -
  have l: "Lookup (scripted_handler lk gc) (WithTimeout Background 100)
             (NewQueryLatest \<lparr>Topic = [8], User = [9]\<rparr> NoClue) (world start)
           = (lk \<lparr>Topic = [8], User = [9]\<rparr>, 1)" for lk gc
    by (simp add: scripted_handler_def start_def)
  have g: "GetContent (scripted_handler lk gc) \<lparr>Topic = [8], User = [9]\<rparr> 1
           = (gc \<lparr>Topic = [8], User = [9]\<rparr>, 2)" for lk gc
    by (simp add: scripted_handler_def)
  let ?late = "\<lambda>fd::Feed. Some (OtherError ''context deadline exceeded'')"
  let ?no_updates = "\<lambda>fd::Feed. Some (OtherError ''no feed updates found'')"
  let ?found = "\<lambda>fd::Feed. None :: error option"
  let ?missing = "\<lambda>fd::Feed. Inl (OtherError ''feed does not exist'') :: error + bytes"
  let ?content = "\<lambda>fd::Feed. Inr [1] :: error + bytes"
  show ?thesis
    unfolding Let_def
    using getFeedContent_cases [OF l [of ?late ?content] g [of ?late ?content] refl]
          getFeedContent_cases [OF l [of ?no_updates ?content] g [of ?no_updates ?content] refl]
          getFeedContent_cases [OF l [of ?no_updates ?missing] g [of ?no_updates ?missing] refl]
          getFeedContent_cases [OF l [of ?found ?missing] g [of ?found ?missing] refl]
          getFeedContent_cases [OF l [of ?found ?content] g [of ?found ?content] refl]
    by (simp add: start_def)
qed

subsection \<open>getPinners\<close>

text \<open>
  C1. If the query of the primary feed (topic text RECOVERY, the publisher of the
  context) succeeds and its content decodes to \<open>targets\<close>, then \<open>getPinners\<close>
  returns exactly \<open>targets\<close> with no error, whatever the fallback publisher is, in the
  state the primary query left: the log has grown by one lookup and one content read,
  both of the primary feed, so the fallback feed is not queried.
\<close>

theorem getPinners_primary_success:
  assumes "queryRecoveryFeed L ctx RecoveryTopicText
             (fst (assert_string (Value ctx ''publisher''))) handler s = (Inr content, s1)"
      and "json_Unmarshal L content = Inr targets"
  shows "getPinners L ctx handler fallbackPublisher s = (Inr targets, s1)
       \<and> (\<exists>topic user.
             feed_NewTopic L RecoveryTopicText = Inr topic
           \<and> publisherToAddress L (fst (assert_string (Value ctx ''publisher''))) = Inr user
           \<and> calls s1 = calls s @ [lookup_call ctx \<lparr>Topic = topic, User = user\<rparr>,
                                    EvGetContent \<lparr>Topic = topic, User = user\<rparr>])"
  using getPinners_primary_ok [OF assms(1), of fallbackPublisher] assms(2)
        queryRecoveryFeed_success [OF assms(1)]
  by (auto simp: extract_targets_def lookup_call_def getFeedTopicAndUser_Inr)

theorem getPinners_primary_success_witness:
  "getPinners stub_Lib ctx_with_hash (handler_up [1, 2]) a_publisher start
     = (Inr [[1], [2]],
        \<lparr>world = 2,
         calls = [lookup_call ctx_with_hash primary_feed, EvGetContent primary_feed]\<rparr>)"
proof -
  have u: "json_Unmarshal stub_Lib [1, 2] = Inr [[1], [2]]"
    by (simp add: stub_Lib_def)
  from getPinners_primary_success [of stub_Lib ctx_with_hash "handler_up [1, 2]" start,
         unfolded ctx_publisher, OF query_up u]
  show ?thesis by simp
qed

text \<open>
  C2. If the query of the primary feed fails with \<open>err\<close> and the fallback publisher
  is the empty string, \<open>getPinners\<close> returns \<open>err\<close> itself and no targets, in
  the state the primary query left: no further call is made.
\<close>

theorem getPinners_no_fallback:
  assumes "queryRecoveryFeed L ctx RecoveryTopicText
             (fst (assert_string (Value ctx ''publisher''))) handler s = (Inl err, s1)"
  shows "getPinners L ctx handler [] s = (Inl err, s1)"
  using getPinners_primary_failed [OF assms, of "[]"] by simp

theorem getPinners_no_fallback_witness:
  "getPinners stub_Lib ctx_with_hash (handler_primary_down [7]) [] start
     = (Inl ErrFeedLookup, \<lparr>world = 1, calls = [lookup_call ctx_with_hash primary_feed]\<rparr>)"
  using getPinners_no_fallback [of stub_Lib ctx_with_hash "handler_primary_down [7]" start,
          unfolded ctx_publisher, OF query_primary_down]
  by simp

text \<open>
  C3. If the query of the primary feed fails, the fallback publisher is not empty and
  the context has no string under the key hash (no value, or a value that is not a
  string), \<open>getPinners\<close> fails with \<open>ErrContextHash\<close> in the state the primary
  query left: the fallback feed is not queried.
\<close>

theorem getPinners_missing_hash:
  assumes "queryRecoveryFeed L ctx RecoveryTopicText
             (fst (assert_string (Value ctx ''publisher''))) handler s = (Inl err, s1)"
      and "fallbackPublisher \<noteq> []"
      and "\<forall>h. Value ctx ''hash'' \<noteq> Some (StringVal h)"
  shows "getPinners L ctx handler fallbackPublisher s = (Inl ErrContextHash, s1)"
proof -
  from assms(3) have "\<not> snd (assert_string (Value ctx ''hash''))"
    by (cases "Value ctx ''hash''" rule: assert_string.cases) auto
  with getPinners_primary_failed [OF assms(1), of fallbackPublisher] assms(2)
  show ?thesis by simp
qed

theorem getPinners_missing_hash_witness:
  "getPinners stub_Lib ctx_without_hash (handler_primary_down [7]) a_publisher start
     = (Inl ErrContextHash, \<lparr>world = 1, calls = [lookup_call ctx_without_hash primary_feed]\<rparr>)
   \<and> getPinners stub_Lib ctx_hash_not_string (handler_primary_down [7]) a_publisher start
     = (Inl ErrContextHash, \<lparr>world = 1, calls = [lookup_call ctx_hash_not_string primary_feed]\<rparr>)"
proof -
  have p: "a_publisher \<noteq> []" by (simp add: a_publisher_def)
  have h1: "\<forall>h. Value ctx_without_hash ''hash'' \<noteq> Some (StringVal h)"
   and h2: "\<forall>h. Value ctx_hash_not_string ''hash'' \<noteq> Some (StringVal h)"
    by (simp_all add: ctx_hash)
  from getPinners_missing_hash [of stub_Lib ctx_without_hash "handler_primary_down [7]" start,
         unfolded ctx_publisher, OF query_primary_down p h1]
       getPinners_missing_hash [of stub_Lib ctx_hash_not_string "handler_primary_down [7]" start,
         unfolded ctx_publisher, OF query_primary_down p h2]
  show ?thesis by simp
qed

text \<open>
  C4. If the query of the primary feed fails, the fallback publisher is not empty and
  the context carries the hash string \<open>h\<close>, then \<open>getPinners\<close> runs one more feed
  query, with the topic text RECOVERY_ followed by \<open>h\<close> and the fallback publisher,
  and ends in the state that query leaves. Its error, if any, is the result as it is;
  its content, if any, is decoded. When the topic and the address of the fallback
  publisher are derived, the log grows by exactly one lookup of that feed, followed
  by at most one content read of it; when they are not, nothing is called and the
  error of the derivation is the result.
\<close>

theorem getPinners_fallback:
  assumes "queryRecoveryFeed L ctx RecoveryTopicText
             (fst (assert_string (Value ctx ''publisher''))) handler s = (Inl err, s1)"
      and "fallbackPublisher \<noteq> []"
      and "Value ctx ''hash'' = Some (StringVal h)"
      and "queryRecoveryFeed L ctx (''RECOVERY_'' @ h) fallbackPublisher handler s1 = (r2, s2)"
  shows "getPinners L ctx handler fallbackPublisher s =
           (case r2 of Inl err2 \<Rightarrow> Inl err2 | Inr content \<Rightarrow> extract_targets L content, s2)
       \<and> (\<forall>topic user.
             feed_NewTopic L (''RECOVERY_'' @ h) = Inr topic
               \<and> publisherToAddress L fallbackPublisher = Inr user \<longrightarrow>
             (calls s2 = calls s1 @ [lookup_call ctx \<lparr>Topic = topic, User = user\<rparr>]
                \<and> r2 = Inl ErrFeedLookup)
             \<or> calls s2 = calls s1 @ [lookup_call ctx \<lparr>Topic = topic, User = user\<rparr>,
                                       EvGetContent \<lparr>Topic = topic, User = user\<rparr>])
       \<and> (\<forall>e. getFeedTopicAndUser L (''RECOVERY_'' @ h) fallbackPublisher = Inl e \<longrightarrow>
             r2 = Inl e \<and> s2 = s1)"
proof -
  from assms(3) have h: "assert_string (Value ctx ''hash'') = (h, True)" by simp
  from getPinners_primary_failed [OF assms(1), of fallbackPublisher] assms(2) assms(4) h
  have a: "getPinners L ctx handler fallbackPublisher s =
           (case r2 of Inl err2 \<Rightarrow> Inl err2 | Inr content \<Rightarrow> extract_targets L content, s2)"
    by (simp split: sum.splits)
  have b: "(calls s2 = calls s1 @ [lookup_call ctx \<lparr>Topic = topic, User = user\<rparr>]
                \<and> r2 = Inl ErrFeedLookup)
             \<or> calls s2 = calls s1 @ [lookup_call ctx \<lparr>Topic = topic, User = user\<rparr>,
                                       EvGetContent \<lparr>Topic = topic, User = user\<rparr>]"
    if "feed_NewTopic L (''RECOVERY_'' @ h) = Inr topic"
       "publisherToAddress L fallbackPublisher = Inr user" for topic user
  proof -
    from that have "getFeedTopicAndUser L (''RECOVERY_'' @ h) fallbackPublisher = Inr (topic, user)"
      by (simp add: getFeedTopicAndUser_Inr)
    from queryRecoveryFeed_calls [OF assms(4) this refl refl]
    show ?thesis by (simp add: lookup_call_def)
  qed
  have c: "r2 = Inl e \<and> s2 = s1"
    if "getFeedTopicAndUser L (''RECOVERY_'' @ h) fallbackPublisher = Inl e" for e
    using assms(4) queryRecoveryFeed_unresolved [OF that, of ctx handler s1] by simp
  from a b c show ?thesis by blast
qed

theorem getPinners_fallback_witness:
  "getPinners stub_Lib ctx_with_hash (handler_primary_down [7]) a_publisher start
     = (Inr [[7]],
        \<lparr>world = 3,
         calls = [lookup_call ctx_with_hash primary_feed,
                  lookup_call ctx_with_hash fallback_feed,
                  EvGetContent fallback_feed]\<rparr>)
   \<and> getPinners stub_Lib ctx_with_hash (handler_primary_down [7]) ''zz'' start
     = (Inl ErrPublisher, \<lparr>world = 1, calls = [lookup_call ctx_with_hash primary_feed]\<rparr>)"
proof -
  have p: "a_publisher \<noteq> []" by (simp add: a_publisher_def)
  have z: "''zz'' \<noteq> []" by simp
  have u: "extract_targets stub_Lib [7] = Inr [[7]]"
    by (simp add: extract_targets_def stub_Lib_def)
  from getPinners_fallback [of stub_Lib ctx_with_hash "handler_primary_down [7]" start,
         unfolded ctx_publisher, OF query_primary_down p ctx_hash(1),
         unfolded append.simps, OF query_fallback]
  have 1: "getPinners stub_Lib ctx_with_hash (handler_primary_down [7]) a_publisher start
     = (Inr [[7]],
        \<lparr>world = 3,
         calls = [lookup_call ctx_with_hash primary_feed,
                  lookup_call ctx_with_hash fallback_feed,
                  EvGetContent fallback_feed]\<rparr>)"
    by (simp add: u)
  from getPinners_fallback [of stub_Lib ctx_with_hash "handler_primary_down [7]" start,
         unfolded ctx_publisher, OF query_primary_down z ctx_hash(1),
         unfolded append.simps, OF query_bad_fallback]
  have 2: "getPinners stub_Lib ctx_with_hash (handler_primary_down [7]) ''zz'' start
     = (Inl ErrPublisher, \<lparr>world = 1, calls = [lookup_call ctx_with_hash primary_feed]\<rparr>)"
    by simp
  from 1 2 show ?thesis by simp
qed

text \<open>
  C5. Content that was fetched but does not decode gives \<open>ErrTargets\<close> and no targets.
  For content of the primary feed this holds whatever the fallback publisher and the
  hash are, in the state the primary query left, so the fallback feed is not queried;
  for content of the fallback feed it holds in the state the fallback query left.
\<close>

theorem getPinners_decode_error:
  "(queryRecoveryFeed L ctx RecoveryTopicText
       (fst (assert_string (Value ctx ''publisher''))) handler s = (Inr content, s1)
      \<and> json_Unmarshal L content = Inl e
    \<longrightarrow> getPinners L ctx handler fallbackPublisher s = (Inl ErrTargets, s1))
   \<and> (queryRecoveryFeed L ctx RecoveryTopicText
       (fst (assert_string (Value ctx ''publisher''))) handler s = (Inl err, s1)
      \<and> fallbackPublisher \<noteq> []
      \<and> Value ctx ''hash'' = Some (StringVal h)
      \<and> queryRecoveryFeed L ctx (''RECOVERY_'' @ h) fallbackPublisher handler s1 = (Inr content, s2)
      \<and> json_Unmarshal L content = Inl e
    \<longrightarrow> getPinners L ctx handler fallbackPublisher s = (Inl ErrTargets, s2))"
proof (intro conjI impI)
  assume "queryRecoveryFeed L ctx RecoveryTopicText
       (fst (assert_string (Value ctx ''publisher''))) handler s = (Inr content, s1)
      \<and> json_Unmarshal L content = Inl e"
  then show "getPinners L ctx handler fallbackPublisher s = (Inl ErrTargets, s1)"
    using getPinners_primary_ok [of L ctx handler s content s1 fallbackPublisher]
    by (simp add: extract_targets_def)
next
  assume a: "queryRecoveryFeed L ctx RecoveryTopicText
       (fst (assert_string (Value ctx ''publisher''))) handler s = (Inl err, s1)
      \<and> fallbackPublisher \<noteq> []
      \<and> Value ctx ''hash'' = Some (StringVal h)
      \<and> queryRecoveryFeed L ctx (''RECOVERY_'' @ h) fallbackPublisher handler s1 = (Inr content, s2)
      \<and> json_Unmarshal L content = Inl e"
  then have q: "queryRecoveryFeed L ctx RecoveryTopicText
       (fst (assert_string (Value ctx ''publisher''))) handler s = (Inl err, s1)" by simp
  from a getPinners_primary_failed [OF q, of fallbackPublisher]
  show "getPinners L ctx handler fallbackPublisher s = (Inl ErrTargets, s2)"
    by (simp add: extract_targets_def)
qed

theorem getPinners_decode_error_witness:
  "getPinners stub_Lib ctx_with_hash (handler_up []) a_publisher start
     = (Inl ErrTargets,
        \<lparr>world = 2,
         calls = [lookup_call ctx_with_hash primary_feed, EvGetContent primary_feed]\<rparr>)
   \<and> getPinners stub_Lib ctx_with_hash (handler_primary_down []) a_publisher start
     = (Inl ErrTargets,
        \<lparr>world = 3,
         calls = [lookup_call ctx_with_hash primary_feed,
                  lookup_call ctx_with_hash fallback_feed,
                  EvGetContent fallback_feed]\<rparr>)"
proof -
  have p: "a_publisher \<noteq> []" by (simp add: a_publisher_def)
  have u: "json_Unmarshal stub_Lib [] = Inl (OtherError ''unexpected end of JSON input'')"
    by (simp add: stub_Lib_def)
  have q1: "queryRecoveryFeed stub_Lib ctx_with_hash RecoveryTopicText
              (fst (assert_string (Value ctx_with_hash ''publisher''))) (handler_up []) start
            = (Inr [], \<lparr>world = 2,
                 calls = [lookup_call ctx_with_hash primary_feed, EvGetContent primary_feed]\<rparr>)"
    by (simp add: ctx_publisher query_up)
  have q2: "queryRecoveryFeed stub_Lib ctx_with_hash RecoveryTopicText
              (fst (assert_string (Value ctx_with_hash ''publisher''))) (handler_primary_down []) start
            = (Inl ErrFeedLookup, \<lparr>world = 1, calls = [lookup_call ctx_with_hash primary_feed]\<rparr>)"
    by (simp add: ctx_publisher query_primary_down)
  have q3: "queryRecoveryFeed stub_Lib ctx_with_hash (''RECOVERY_'' @ ''abc123'') a_publisher
              (handler_primary_down []) \<lparr>world = 1, calls = [lookup_call ctx_with_hash primary_feed]\<rparr>
            = (Inr [], \<lparr>world = 3,
                 calls = [lookup_call ctx_with_hash primary_feed,
                          lookup_call ctx_with_hash fallback_feed,
                          EvGetContent fallback_feed]\<rparr>)"
    using query_fallback [of ctx_with_hash "[]"] by simp
  from getPinners_decode_error [of stub_Lib ctx_with_hash "handler_up []" start "[]" _
          "OtherError ''unexpected end of JSON input''" a_publisher] q1 u
  have 1: "getPinners stub_Lib ctx_with_hash (handler_up []) a_publisher start
     = (Inl ErrTargets,
        \<lparr>world = 2,
         calls = [lookup_call ctx_with_hash primary_feed, EvGetContent primary_feed]\<rparr>)"
    by simp
  from getPinners_decode_error [of stub_Lib ctx_with_hash "handler_primary_down []" start "[]"
          "\<lparr>world = 1, calls = [lookup_call ctx_with_hash primary_feed]\<rparr>"
          "OtherError ''unexpected end of JSON input''" a_publisher ErrFeedLookup "''abc123''"]
       q2 q3 u p ctx_hash(1)
  have 2: "getPinners stub_Lib ctx_with_hash (handler_primary_down []) a_publisher start
     = (Inl ErrTargets,
        \<lparr>world = 3,
         calls = [lookup_call ctx_with_hash primary_feed,
                  lookup_call ctx_with_hash fallback_feed,
                  EvGetContent fallback_feed]\<rparr>)"
    by simp
  from 1 2 show ?thesis by simp
qed

text \<open>
  C10. If the context has no string under the key publisher (no value, or a value that
  is not a string), \<open>getPinners\<close> goes on with the empty string as the publisher.
  The empty string decodes, as hexadecimal, to no bytes; given that the topic of the
  text RECOVERY is built and that the library decompresses no key from no bytes, the
  primary query fails with \<open>ErrPubKey\<close> before anything is called, and with no
  fallback publisher that is what \<open>getPinners\<close> returns.
\<close>

theorem getPinners_no_publisher:
  assumes "\<forall>p. Value ctx ''publisher'' \<noteq> Some (StringVal p)"
      and "feed_NewTopic L RecoveryTopicText = Inr topic"
      and "crypto_DecompressPubkey L [] = Inl e"
  shows "fst (assert_string (Value ctx ''publisher'')) = []
       \<and> hex_DecodeString (fst (assert_string (Value ctx ''publisher''))) = Inr []
       \<and> queryRecoveryFeed L ctx RecoveryTopicText
            (fst (assert_string (Value ctx ''publisher''))) handler s = (Inl ErrPubKey, s)
       \<and> getPinners L ctx handler [] s = (Inl ErrPubKey, s)"
proof -
  from assms(1) have p: "fst (assert_string (Value ctx ''publisher'')) = []"
    by (cases "Value ctx ''publisher''" rule: assert_string.cases) auto
  from assms(3) have "publisherToAddress L [] = Inl ErrPubKey"
    by (simp add: publisherToAddress_def)
  with assms(2) have "getFeedTopicAndUser L RecoveryTopicText [] = Inl ErrPubKey"
    by (simp add: getFeedTopicAndUser_def)
  from queryRecoveryFeed_unresolved [OF this]
  have q: "queryRecoveryFeed L ctx RecoveryTopicText
            (fst (assert_string (Value ctx ''publisher''))) handler s = (Inl ErrPubKey, s)"
    by (simp add: p)
  from getPinners_primary_failed [OF q, of "[]"] p q show ?thesis by simp
qed

theorem getPinners_no_publisher_witness:
  "getPinners stub_Lib Background (handler_up [1, 2]) [] start = (Inl ErrPubKey, start)
   \<and> getPinners stub_Lib ctx_publisher_not_string (handler_up [1, 2]) [] start
       = (Inl ErrPubKey, start)"
proof -
  have a: "\<forall>p. Value Background ''publisher'' \<noteq> Some (StringVal p)"
    by (simp add: Value_def Background_def)
  have b: "\<forall>p. Value ctx_publisher_not_string ''publisher'' \<noteq> Some (StringVal p)"
    by (simp add: Value_def ctx_publisher_not_string_def)
  have d: "crypto_DecompressPubkey stub_Lib [] = Inl (OtherError ''invalid public key'')"
    by (simp add: stub_Lib_def)
  from getPinners_no_publisher [OF a stub_topics(1) d, where handler = "handler_up [1, 2]" and s = start]
       getPinners_no_publisher [OF b stub_topics(1) d, where handler = "handler_up [1, 2]" and s = start]
  show ?thesis by simp
qed

subsection \<open>NewRecoveryHook\<close>

text \<open>
  C8. The hook made by \<open>NewRecoveryHook\<close>: if \<open>getPinners\<close> fails with \<open>err\<close>, the
  hook returns \<open>err\<close> itself in the state \<open>getPinners\<close> left, and the sender is
  not called. If \<open>getPinners\<close> returns \<open>targets\<close>, the sender is called once, with the
  context, \<open>targets\<close>, the topic of the text RECOVERY and the chunk address as the
  payload; the hook returns the error of the sender, or nil if there is none, and the
  monitor is dropped. In both cases \<open>getPinners\<close> itself adds no call of the sender to
  the log.
\<close>

theorem NewRecoveryHook_cases:
  "(getPinners L ctx handler fallbackPublisher s = (Inl err, s1) \<longrightarrow>
      NewRecoveryHook L send handler fallbackPublisher ctx chunkAddress s = (Some err, s1)
      \<and> filter is_EvSend (calls s1) = filter is_EvSend (calls s))
   \<and> (getPinners L ctx handler fallbackPublisher s = (Inr targets, s1)
        \<and> send ctx targets (trojan_NewTopic L ''RECOVERY'') chunkAddress (world s1)
            = ((monitor, serr), w2) \<longrightarrow>
      NewRecoveryHook L send handler fallbackPublisher ctx chunkAddress s
        = (serr, \<lparr>world = w2,
                  calls = calls s1 @ [EvSend ctx targets (trojan_NewTopic L ''RECOVERY'')
                                        chunkAddress]\<rparr>)
      \<and> filter is_EvSend (calls s1) = filter is_EvSend (calls s))"
  using getPinners_no_send [of L ctx handler fallbackPublisher s _ s1]
  by (simp add: NewRecoveryHook_def call_send_def RecoveryTopic_def RecoveryTopicText_def)

theorem NewRecoveryHook_cases_witness:
  "NewRecoveryHook stub_Lib (scripted_sender None) (handler_primary_down [7]) a_publisher
       ctx_without_hash [4, 5, 6] start
     = (Some ErrContextHash,
        \<lparr>world = 1, calls = [lookup_call ctx_without_hash primary_feed]\<rparr>)
   \<and> NewRecoveryHook stub_Lib (scripted_sender None) (handler_up [1, 2]) a_publisher
       ctx_with_hash [4, 5, 6] start
     = (None,
        \<lparr>world = 3,
         calls = [lookup_call ctx_with_hash primary_feed, EvGetContent primary_feed,
                  EvSend ctx_with_hash [[1], [2]] (map of_char ''RECOVERY'') [4, 5, 6]]\<rparr>)
   \<and> NewRecoveryHook stub_Lib (scripted_sender (Some (OtherError ''no route'')))
       (handler_up [1, 2]) a_publisher ctx_with_hash [4, 5, 6] start
     = (Some (OtherError ''no route''),
        \<lparr>world = 3,
         calls = [lookup_call ctx_with_hash primary_feed, EvGetContent primary_feed,
                  EvSend ctx_with_hash [[1], [2]] (map of_char ''RECOVERY'') [4, 5, 6]]\<rparr>)"
proof -
  have t: "trojan_NewTopic stub_Lib ''RECOVERY'' = map of_char ''RECOVERY''"
    by (simp add: stub_Lib_def)
  have sd: "scripted_sender serr ctx_with_hash [[1], [2]] (trojan_NewTopic stub_Lib ''RECOVERY'')
              [4, 5, 6] (world \<lparr>world = 2, calls = cs\<rparr>) = ((Some (Monitor 2), serr), 3)"
    for serr cs
    by (simp add: scripted_sender_def)
  from NewRecoveryHook_cases [of stub_Lib ctx_without_hash "handler_primary_down [7]" a_publisher
         start ErrContextHash _ "scripted_sender None" "[4, 5, 6]"] pinners_down
  have 1: "NewRecoveryHook stub_Lib (scripted_sender None) (handler_primary_down [7]) a_publisher
       ctx_without_hash [4, 5, 6] start
     = (Some ErrContextHash,
        \<lparr>world = 1, calls = [lookup_call ctx_without_hash primary_feed]\<rparr>)"
    by simp
  have 2: "NewRecoveryHook stub_Lib (scripted_sender serr) (handler_up [1, 2]) a_publisher
       ctx_with_hash [4, 5, 6] start
     = (serr,
        \<lparr>world = 3,
         calls = [lookup_call ctx_with_hash primary_feed, EvGetContent primary_feed,
                  EvSend ctx_with_hash [[1], [2]] (map of_char ''RECOVERY'') [4, 5, 6]]\<rparr>)"
    for serr
    using NewRecoveryHook_cases [of stub_Lib ctx_with_hash "handler_up [1, 2]" a_publisher
         start _ "\<lparr>world = 2,
         calls = [lookup_call ctx_with_hash primary_feed, EvGetContent primary_feed]\<rparr>"
         "scripted_sender serr" "[4, 5, 6]" "[[1], [2]]" "Some (Monitor 2)" serr 3]
      pinners_up sd [of serr] t
    by simp
  from 1 2 [of None] 2 [of "Some (OtherError ''no route'')"] show ?thesis by simp
qed

subsection \<open>NewRepairHandler\<close>

text \<open>
  C9. The handler made by \<open>NewRepairHandler\<close> sends the store one request: mode
  re-upload, the payload of the message as the only address, the background context.
  What is left of the call is the state of the store and the entry in the log: the
  error the store returns appears nowhere, and the handler returns no value. Run twice
  on the same message, it sends the request twice.
\<close>

theorem NewRepairHandler_request:
  "NewRepairHandler st m s
     = \<lparr>world = snd (Set st Background ModeSetReUpload [Payload m] (world s)),
        calls = calls s @ [EvSet Background ModeSetReUpload [Payload m]]\<rparr>
   \<and> calls (NewRepairHandler st m (NewRepairHandler st m s))
     = calls s @ [EvSet Background ModeSetReUpload [Payload m],
                  EvSet Background ModeSetReUpload [Payload m]]"
  by (simp add: NewRepairHandler_def store_Set_def Let_def split_beta)

text \<open>A store that answers with an error: the handler ends as with any other store.\<close>

lemma NewRepairHandler_failing_store:
  "NewRepairHandler (scripted_store (Some (OtherError ''chunk not found'')))
       \<lparr>MessageTopic = [], Payload = [4, 5, 6]\<rparr> start
     = \<lparr>world = 1, calls = [EvSet Background ModeSetReUpload [[4, 5, 6]]]\<rparr>"
  by (simp add: NewRepairHandler_def store_Set_def scripted_store_def start_def)

end
